theory Spec2Isabelle
  imports Main "HOL-Library.Multiset"
begin

section \<open>Data model\<close>

text \<open>
  The backend keeps two MongoDB collections behind Mongoose models: users
  (\<^verbatim>\<open>models/User.js\<close>) and notes (\<^verbatim>\<open>models/Note.js\<close>). A collection is a list of
  documents in insertion order. Strings are character lists, one character per code unit
  (the Latin-1 range); \<^verbatim>\<open>s.length\<close> is \<open>length s\<close>. Timestamps are milliseconds
  since the epoch, as \<^verbatim>\<open>Date\<close> stores them. An ObjectId is kept as its canonical text,
  24 lower-case hexadecimal digits.
\<close>

type_synonym oid = string

text \<open>\<^verbatim>\<open>userSchema\<close>: \<open>username\<close>, \<open>password\<close> (the bcrypt hash), and the two timestamps
  that \<^verbatim>\<open>timestamps: true\<close> adds; \<open>user_id\<close> is the document's \<^verbatim>\<open>_id\<close>.\<close>

record User =
  user_id :: oid
  username :: string
  password :: string
  user_createdAt :: nat
  user_updatedAt :: nat

text \<open>\<^verbatim>\<open>noteSchema\<close>: \<open>title\<close>, \<open>content\<close>, the owner reference \<open>user\<close>, and the two
  timestamps; \<open>note_id\<close> is the document's \<^verbatim>\<open>_id\<close>.\<close>

record Note =
  note_id :: oid
  title :: string
  content :: string
  user :: oid
  createdAt :: nat
  updatedAt :: nat

text \<open>The payload of a signed token: what \<^verbatim>\<open>jwt.sign\<close> is given (\<open>id\<close>, \<open>username\<close>),
  the issue and expiry times in seconds that it adds, and the signature.\<close>

record token =
  jwt_id :: oid
  jwt_username :: string
  iat :: nat
  exp :: nat
  signature :: string

text \<open>The \<^verbatim>\<open>user: { id, username }\<close> object of the login response.\<close>

record user_view =
  view_id :: oid
  view_username :: string

text \<open>What a handler sends: \<^verbatim>\<open>res.status(s).json(b)\<close>. The bodies the controllers
  produce are a \<^verbatim>\<open>{ message }\<close> object, one note, an array of notes, or the login
  result \<^verbatim>\<open>{ token, user }\<close>.\<close>

datatype json_body =
    Message string
  | NoteJson Note
  | NotesJson "Note list"
  | LoginJson token user_view

record response =
  status :: nat
  json :: json_body

definition respond :: "nat \<Rightarrow> json_body \<Rightarrow> response" where
  "respond s b = \<lparr>status = s, json = b\<rparr>"

text \<open>\<^verbatim>\<open>req.body\<close> after \<^verbatim>\<open>express.json()\<close>: an object whose fields the handlers read
  by name. The fields the handlers read are documented as strings; a field that is
  missing reads as \<^verbatim>\<open>undefined\<close>, here \<open>None\<close>.\<close>

type_synonym body = "string \<rightharpoonup> string"

section \<open>Mongoose: casting, setters, validators\<close>

text \<open>A route parameter is text, and so is the identity a token carries. Mongoose casts a
  value for an ObjectId path, which succeeds on 24 hexadecimal digits (either case) and throws a
  \<^verbatim>\<open>CastError\<close> otherwise (Mongoose 7 and later; older versions also took any
  12 characters as the 12 bytes of an id).\<close>

definition is_hex :: "char \<Rightarrow> bool" where
  "is_hex c = (c \<in> set ''0123456789abcdefABCDEF'')"

definition lower_hex :: "char \<Rightarrow> char" where
  "lower_hex c = (case map_of (zip ''ABCDEF'' ''abcdef'') c of Some d \<Rightarrow> d | None \<Rightarrow> c)"

definition castObjectId :: "string \<Rightarrow> oid option" where
  "castObjectId s = (if length s = 24 \<and> list_all is_hex s then Some (map lower_hex s) else None)"

text \<open>The \<^verbatim>\<open>required: true\<close> validator of a String path: the value is present and is
  not the empty string.\<close>

definition required_string :: "string option \<Rightarrow> bool" where
  "required_string v = (case v of None \<Rightarrow> False | Some s \<Rightarrow> s \<noteq> [])"


section \<open>Notes controller\<close>

text \<open>Every handler reads the caller's identity from \<^verbatim>\<open>req.user.id\<close>, which is text: the
  \<open>id\<close> of the token's payload. \<open>user\<close> is an ObjectId path of \<^verbatim>\<open>noteSchema\<close> like
  \<^verbatim>\<open>_id\<close>, so Mongoose casts the identity wherever it enters a filter or a new document,
  as it casts the route parameter: another spelling of the same id is the same owner, and
  a value that is not an ObjectId makes the operation throw, which each handler's
  \<^verbatim>\<open>catch\<close> answers with 500.\<close>



text \<open>\<^verbatim>\<open>Note.findOne({ _id, user })\<close> after the filter has been cast.\<close>

definition Note_findOne :: "oid \<Rightarrow> oid \<Rightarrow> Note list \<Rightarrow> Note option" where
  "Note_findOne i u notes = find (\<lambda>n. note_id n = i \<and> user n = u) notes"

definition getNoteById :: "string \<Rightarrow> string \<Rightarrow> Note list \<Rightarrow> response" where
  "getNoteById userId rid notes =
     (case castObjectId rid of
        None \<Rightarrow> respond 500 (Message ''Internal server error'')
      | Some i \<Rightarrow>
          (case castObjectId userId of
             None \<Rightarrow> respond 500 (Message ''Internal server error'')
           | Some u \<Rightarrow>
               (case Note_findOne i u notes of
                  None \<Rightarrow> respond 404 (Message ''Note not found!'')
                | Some n \<Rightarrow> respond 200 (NoteJson n))))"

text \<open>\<^verbatim>\<open>new Note({ title, content, user }).save()\<close>: the document gets a fresh
  \<^verbatim>\<open>_id\<close> and both timestamps set to the current time; \<^verbatim>\<open>save\<close> validates the
  required paths, fails when the owner could not be cast to an ObjectId, and the insert
  fails on a duplicate \<^verbatim>\<open>_id\<close>. A failure throws (\<open>None\<close>); success gives the saved
  document, whose owner is the cast identity, and the collection with it.\<close>

definition Note_save ::
  "nat \<Rightarrow> oid \<Rightarrow> string option \<Rightarrow> string option \<Rightarrow> string \<Rightarrow> Note list \<Rightarrow> (Note \<times> Note list) option" where
  "Note_save now newid t c userId notes =
     (case (t, c, castObjectId userId) of
        (Some t', Some c', Some u) \<Rightarrow>
          if \<not> required_string t \<or> \<not> required_string c then None
          else if newid \<in> set (map note_id notes) then None
          else
            (let n = \<lparr>note_id = newid, title = t', content = c', user = u,
                      createdAt = now, updatedAt = now\<rparr>
             in Some (n, notes @ [n]))
      | _ \<Rightarrow> None)"

definition createNote :: "nat \<Rightarrow> oid \<Rightarrow> string \<Rightarrow> body \<Rightarrow> Note list \<Rightarrow> response \<times> Note list" where
  "createNote now newid userId b notes =
     (case Note_save now newid (b ''title'') (b ''content'') userId notes of
        None \<Rightarrow> (respond 500 (Message ''Internal server error''), notes)
      | Some (savedNote, notes') \<Rightarrow> (respond 201 (NoteJson savedNote), notes'))"

text \<open>The update document \<^verbatim>\<open>{ title, content }\<close>: Mongoose (6 and later) drops the keys
  whose value is \<^verbatim>\<open>undefined\<close>, sets the others, and the \<^verbatim>\<open>timestamps\<close> option sets
  \<^verbatim>\<open>updatedAt\<close>. Validators do not run on \<^verbatim>\<open>findOneAndUpdate\<close>, since the handler
  does not pass \<^verbatim>\<open>runValidators\<close>.\<close>

definition apply_update :: "nat \<Rightarrow> string option \<Rightarrow> string option \<Rightarrow> Note \<Rightarrow> Note" where
  "apply_update now t c n =
     n\<lparr>title := (case t of None \<Rightarrow> title n | Some t' \<Rightarrow> t'),
       content := (case c of None \<Rightarrow> content n | Some c' \<Rightarrow> c'),
       updatedAt := now\<rparr>"

text \<open>\<^verbatim>\<open>findOneAndUpdate(filter, update, { new: true })\<close>: the first document that
  matches is replaced by its updated form, which is returned; without a match nothing
  changes and the result is \<^verbatim>\<open>null\<close>.\<close>

fun findOneAndUpdate :: "(Note \<Rightarrow> bool) \<Rightarrow> (Note \<Rightarrow> Note) \<Rightarrow> Note list \<Rightarrow> Note option \<times> Note list" where
  "findOneAndUpdate P f [] = (None, [])"
| "findOneAndUpdate P f (n # ns) =
     (if P n then (Some (f n), f n # ns)
      else (case findOneAndUpdate P f ns of (r, ns') \<Rightarrow> (r, n # ns')))"

definition updateNote :: "nat \<Rightarrow> string \<Rightarrow> string \<Rightarrow> body \<Rightarrow> Note list \<Rightarrow> response \<times> Note list" where
  "updateNote now userId rid b notes =
     (case castObjectId rid of
        None \<Rightarrow> (respond 500 (Message ''Internal server error''), notes)
      | Some i \<Rightarrow>
          (case castObjectId userId of
             None \<Rightarrow> (respond 500 (Message ''Internal server error''), notes)
           | Some u \<Rightarrow>
               (case findOneAndUpdate (\<lambda>n. note_id n = i \<and> user n = u)
                       (apply_update now (b ''title'') (b ''content'')) notes of
                  (None, notes') \<Rightarrow> (respond 404 (Message ''Note not found''), notes')
                | (Some updatedNote, notes') \<Rightarrow> (respond 200 (NoteJson updatedNote), notes'))))"

text \<open>\<^verbatim>\<open>findOneAndDelete(filter)\<close>: the first document that matches is removed and
  returned; without a match nothing changes.\<close>

fun findOneAndDelete :: "(Note \<Rightarrow> bool) \<Rightarrow> Note list \<Rightarrow> Note option \<times> Note list" where
  "findOneAndDelete P [] = (None, [])"
| "findOneAndDelete P (n # ns) =
     (if P n then (Some n, ns)
      else (case findOneAndDelete P ns of (r, ns') \<Rightarrow> (r, n # ns')))"

definition deleteNote :: "string \<Rightarrow> string \<Rightarrow> Note list \<Rightarrow> response \<times> Note list" where
  "deleteNote userId rid notes =
     (case castObjectId rid of
        None \<Rightarrow> (respond 500 (Message ''Internal server error''), notes)
      | Some i \<Rightarrow>
          (case castObjectId userId of
             None \<Rightarrow> (respond 500 (Message ''Internal server error''), notes)
           | Some u \<Rightarrow>
               (case findOneAndDelete (\<lambda>n. note_id n = i \<and> user n = u) notes of
                  (None, notes') \<Rightarrow> (respond 404 (Message ''Note not found''), notes')
                | (Some deletedNote, notes') \<Rightarrow>
                    (respond 200 (Message ''Note deleted successfully!''), notes'))))"

section \<open>Auth controller\<close>

text \<open>JavaScript's \<^verbatim>\<open>String.prototype.trim\<close>, which the \<^verbatim>\<open>trim: true\<close> option of
  \<open>username\<close> applies as a setter: white space and line terminators are removed
  from both ends.\<close>

definition js_whitespace :: "char \<Rightarrow> bool" where
  "js_whitespace c = (c \<in> set [CHR 0x09, CHR 0x0A, CHR 0x0B, CHR 0x0C, CHR 0x0D, CHR 0x20, CHR 0xA0])"

definition trim :: "string \<Rightarrow> string" where
  "trim s = rev (dropWhile js_whitespace (rev (dropWhile js_whitespace s)))"

text \<open>\<^verbatim>\<open>!x\<close> on a field that is a string or missing: true for \<^verbatim>\<open>undefined\<close> and
  for the empty string.\<close>

definition falsy :: "string option \<Rightarrow> bool" where
  "falsy v = (case v of None \<Rightarrow> True | Some s \<Rightarrow> s = [])"

text \<open>\<^verbatim>\<open>User.findOne({ username })\<close>: Mongoose casts the filter with the path's
  setters, so the name is trimmed before the lookup.\<close>

definition User_findOne :: "string \<Rightarrow> User list \<Rightarrow> User option" where
  "User_findOne name users = find (\<lambda>u. username u = trim name) users"

text \<open>\<^verbatim>\<open>new User({ username, password }).save()\<close>: the setter trims the name; \<^verbatim>\<open>save\<close>
  validates \<^verbatim>\<open>required\<close> and \<^verbatim>\<open>minlength\<close> on both paths (the password path holds the
  hash), and the insert fails on a duplicate of the unique \<open>username\<close> index or of
  \<^verbatim>\<open>_id\<close>. A failure throws (\<open>None\<close>).\<close>

definition User_save :: "nat \<Rightarrow> oid \<Rightarrow> string \<Rightarrow> string \<Rightarrow> User list \<Rightarrow> User list option" where
  "User_save now newid name hashedPassword users =
     (let name' = trim name in
      if \<not> required_string (Some name') \<or> length name' < 3 then None
      else if \<not> required_string (Some hashedPassword) \<or> length hashedPassword < 6 then None
      else if name' \<in> set (map username users) \<or> newid \<in> set (map user_id users) then None
      else Some (users @ [\<lparr>user_id = newid, username = name', password = hashedPassword,
                           user_createdAt = now, user_updatedAt = now\<rparr>]))"

text \<open>\<^verbatim>\<open>register\<close>. The hash function \<^verbatim>\<open>bcrypt.hash\<close> is a parameter; the salt that
  \<^verbatim>\<open>bcrypt.genSalt(10)\<close> draws, the clock and the generated \<^verbatim>\<open>_id\<close> are inputs.\<close>

definition register ::
  "(string \<Rightarrow> string \<Rightarrow> string) \<Rightarrow> string \<Rightarrow> nat \<Rightarrow> oid \<Rightarrow> body \<Rightarrow> User list \<Rightarrow> response \<times> User list" where
  "register bcrypt_hash salt now newid b users =
     (if falsy (b ''username'') \<or> falsy (b ''password'') then
        (respond 400 (Message ''Username and password are required''), users)
      else
        (case (b ''username'', b ''password'') of
           (Some name, Some pw) \<Rightarrow>
             (case User_findOne name users of
                Some existingUser \<Rightarrow> (respond 400 (Message ''Username already exists''), users)
              | None \<Rightarrow>
                  (let hashedPassword = bcrypt_hash pw salt in
                   case User_save now newid name hashedPassword users of
                     None \<Rightarrow> (respond 500 (Message ''Server error''), users)
                   | Some users' \<Rightarrow> (respond 201 (Message ''User registered successfully''), users')))
         | _ \<Rightarrow> (respond 400 (Message ''Username and password are required''), users)))"

text \<open>\<^verbatim>\<open>process.env.JWT_SECRET || 'default_secret_key'\<close>.\<close>

definition jwt_secret :: "string option \<Rightarrow> string" where
  "jwt_secret env = (if falsy env then ''default_secret_key'' else (case env of Some s \<Rightarrow> s | None \<Rightarrow> ''default_secret_key''))"

text \<open>\<^verbatim>\<open>jwt.sign(payload, secret, { expiresIn: '1h' })\<close>: the payload is extended with the
  issue time in seconds and an expiry 3600 seconds later, and signed. The keyed
  signature function is a parameter.\<close>

definition jwt_sign ::
  "(string \<Rightarrow> oid \<times> string \<times> nat \<times> nat \<Rightarrow> string) \<Rightarrow> nat \<Rightarrow> oid \<Rightarrow> string \<Rightarrow> string \<Rightarrow> token" where
  "jwt_sign hmac now i name secret =
     (let issued = now div 1000; expires = issued + 3600
      in \<lparr>jwt_id = i, jwt_username = name, iat = issued, exp = expires,
          signature = hmac secret (i, name, issued, expires)\<rparr>)"

text \<open>\<^verbatim>\<open>jwt.verify(token, secret)\<close> at a given time: the signature must be the one the
  secret gives for the payload and the expiry must lie in the future.\<close>

definition jwt_verify ::
  "(string \<Rightarrow> oid \<times> string \<times> nat \<times> nat \<Rightarrow> string) \<Rightarrow> nat \<Rightarrow> string \<Rightarrow> token \<Rightarrow> user_view option" where
  "jwt_verify hmac now secret t =
     (if signature t = hmac secret (jwt_id t, jwt_username t, iat t, exp t) \<and> now div 1000 < exp t
      then Some \<lparr>view_id = jwt_id t, view_username = jwt_username t\<rparr> else None)"

text \<open>The library and store calls a handler makes, in order: the work a request costs.\<close>

datatype lib_call = Call_User_findOne | Call_bcrypt_compare | Call_jwt_sign

text \<open>\<^verbatim>\<open>login\<close>. \<^verbatim>\<open>bcrypt.compare\<close> and the signature function are parameters; the handler
  does not change the store. The result is the response and the calls made.\<close>

definition login ::
  "(string \<Rightarrow> string \<Rightarrow> bool) \<Rightarrow> (string \<Rightarrow> oid \<times> string \<times> nat \<times> nat \<Rightarrow> string) \<Rightarrow> string option \<Rightarrow> nat
     \<Rightarrow> body \<Rightarrow> User list \<Rightarrow> response \<times> lib_call list" where
  "login bcrypt_compare hmac env now b users =
     (if falsy (b ''username'') \<or> falsy (b ''password'') then
        (respond 400 (Message ''Username and password are required''), [])
      else
        (case (b ''username'', b ''password'') of
           (Some name, Some pw) \<Rightarrow>
             (case User_findOne name users of
                None \<Rightarrow> (respond 400 (Message ''Invalid credentials''), [Call_User_findOne])
              | Some u \<Rightarrow>
                  if \<not> bcrypt_compare pw (password u) then
                    (respond 400 (Message ''Invalid credentials''),
                     [Call_User_findOne, Call_bcrypt_compare])
                  else
                    (let t = jwt_sign hmac now (user_id u) (username u) (jwt_secret env)
                     in (respond 200 (LoginJson t \<lparr>view_id = user_id u, view_username = username u\<rparr>),
                         [Call_User_findOne, Call_bcrypt_compare, Call_jwt_sign])))
         | _ \<Rightarrow> (respond 400 (Message ''Username and password are required''), [])))"

section \<open>Sample documents\<close>

text \<open>Two users and one note of each, used to run the handlers on concrete requests.\<close>

definition alice_id :: oid where
  "alice_id = ''64b7f0a1c2d3e4f5a6b7c8d1''"

definition bob_id :: oid where
  "bob_id = ''64b7f0a1c2d3e4f5a6b7c8d2''"

definition alice_note :: Note where
  "alice_note = \<lparr>note_id = ''64b7f0a1c2d3e4f5a6b7c8e1'', title = ''groceries'', content = ''milk'',
     user = alice_id, createdAt = 1000, updatedAt = 1000\<rparr>"

definition bob_note :: Note where
  "bob_note = \<lparr>note_id = ''64b7f0a1c2d3e4f5a6b7c8e2'', title = ''todo'', content = ''ship it'',
     user = bob_id, createdAt = 2000, updatedAt = 2000\<rparr>"

text \<open>Stand-ins for the library functions that the handlers take as parameters, and a
  stored user, used only to run the handlers on concrete requests. The salt has the
  29 characters of a bcrypt salt; the stand-in comparison re-hashes with the salt
  that the stored hash starts with, as bcrypt does.\<close>

definition sample_salt :: string where
  "sample_salt = ''$2a$10$abcdefghijklmnopqrstuv''"

definition sample_hash :: "string \<Rightarrow> string \<Rightarrow> string" where
  "sample_hash pw salt = salt @ rev pw"

definition sample_compare :: "string \<Rightarrow> string \<Rightarrow> bool" where
  "sample_compare pw h = (h = sample_hash pw (take 29 h))"

definition sample_hmac :: "string \<Rightarrow> oid \<times> string \<times> nat \<times> nat \<Rightarrow> string" where
  "sample_hmac secret p = (case p of (i, name, issued, expires) \<Rightarrow> secret @ i @ name)"

definition bob_user :: User where
  "bob_user = \<lparr>user_id = bob_id, username = ''bob'', password = sample_hash ''hunter22'' sample_salt,
     user_createdAt = 500, user_updatedAt = 500\<rparr>"


section \<open>Find-and-modify on the note collection\<close>

lemma findOneAndUpdate_no_match:
  "find P ns = None \<Longrightarrow> findOneAndUpdate P f ns = (None, ns)"
  by (induction ns) (auto split: if_splits)

lemma findOneAndUpdate_match:
  "find P ns = Some n \<Longrightarrow>
     \<exists>k<length ns. ns ! k = n \<and> findOneAndUpdate P f ns = (Some (f n), ns[k := f n])"
proof (induction ns)
  case Nil
  then show ?case by simp
next
  case (Cons m ms)
  show ?case
  proof (cases "P m")
    case True
    with Cons.prems have "m = n" by simp
    with True have "(m # ms) ! 0 = n \<and> findOneAndUpdate P f (m # ms) = (Some (f n), (m # ms)[0 := f n])"
      by simp
    then show ?thesis by blast
  next
    case False
    with Cons.prems have "find P ms = Some n" by simp
    from Cons.IH [OF this] obtain k where k: "k < length ms" "ms ! k = n"
      "findOneAndUpdate P f ms = (Some (f n), ms[k := f n])" by blast
    with False have "Suc k < length (m # ms) \<and> (m # ms) ! Suc k = n
        \<and> findOneAndUpdate P f (m # ms) = (Some (f n), (m # ms)[Suc k := f n])"
      by simp
    then show ?thesis by blast
  qed
qed

lemma findOneAndDelete_no_match:
  "find P ns = None \<Longrightarrow> findOneAndDelete P ns = (None, ns)"
  by (induction ns) (auto split: if_splits)

lemma findOneAndDelete_match:
  "find P ns = Some n \<Longrightarrow> findOneAndDelete P ns = (Some n, remove1 n ns)"
proof (induction ns)
  case Nil
  then show ?case by simp
next
  case (Cons m ms)
  show ?case
  proof (cases "P m")
    case True
    with Cons.prems show ?thesis by simp
  next
    case False
    with Cons.prems have f: "find P ms = Some n" by simp
    then have "P n" by (auto simp: find_Some_iff)
    with False have "m \<noteq> n" by blast
    with False f Cons.IH show ?thesis by simp
  qed
qed

lemma find_other_owner:
  assumes "n \<in> set ns" and "distinct (map note_id ns)" and "user n \<noteq> u"
  shows "find (\<lambda>m. note_id m = note_id n \<and> user m = u) ns = None"
proof -
  have "inj_on note_id (set ns)" using assms(2) by (simp add: distinct_map)
  then have "\<And>m. m \<in> set ns \<Longrightarrow> note_id m = note_id n \<Longrightarrow> m = n"
    using assms(1) by (auto dest: inj_onD)
  with assms(3) show ?thesis by (auto simp: find_None_iff)
qed

lemma find_absent_id:
  "i \<notin> set (map note_id ns) \<Longrightarrow> find (\<lambda>m. note_id m = i \<and> user m = u) ns = None"
  by (auto simp: find_None_iff)

lemma find_unique_match:
  assumes "distinct (map note_id ns)" and "find (\<lambda>m. note_id m = i \<and> user m = u) ns = Some n"
  shows "filter (\<lambda>m. note_id m = i) ns = [n]"
  using assms
proof (induction ns)
  case Nil
  then show ?case by simp
next
  case (Cons m ms)
  show ?case
  proof (cases "note_id m = i")
    case True
    with Cons.prems(1) have "i \<notin> set (map note_id ms)" by auto
    then have none: "filter (\<lambda>m. note_id m = i) ms = []" by (auto simp: filter_empty_conv)
    from \<open>i \<notin> set (map note_id ms)\<close> have "find (\<lambda>m. note_id m = i \<and> user m = u) ms = None"
      by (rule find_absent_id)
    with Cons.prems(2) True have "m = n" by (simp split: if_splits)
    with True none show ?thesis by simp
  next
    case False
    with Cons show ?thesis by simp
  qed
qed


section \<open>Invariants of the collections\<close>

text \<open>MongoDB keeps \<^verbatim>\<open>_id\<close> unique in a collection, and the unique index keeps
  usernames unique. The handlers preserve both, so the theorems below may assume them of
  any collection the handlers have built.\<close>

lemma findOneAndUpdate_keeps_ids:
  assumes "\<And>n. note_id (f n) = note_id n"
  shows "map note_id (snd (findOneAndUpdate P f ns)) = map note_id ns"
  by (induction ns) (auto simp: assms split: prod.splits)

lemma findOneAndDelete_subset:
  "set (snd (findOneAndDelete P ns)) \<subseteq> set ns"
  by (induction ns) (auto split: prod.splits)

lemma findOneAndDelete_keeps_distinct:
  "distinct (map note_id ns) \<Longrightarrow> distinct (map note_id (snd (findOneAndDelete P ns)))"
proof (induction ns)
  case Nil
  then show ?case by simp
next
  case (Cons m ms)
  then have d: "distinct (map note_id (snd (findOneAndDelete P ms)))" by simp
  have "note_id m \<notin> note_id ` set (snd (findOneAndDelete P ms))"
    using Cons.prems findOneAndDelete_subset [of P ms] by auto
  with d Cons.prems show ?case by (auto split: prod.splits)
qed

lemma updateNote_store:
  "snd (updateNote now userId rid b notes) =
     (case castObjectId rid of
        None \<Rightarrow> notes
      | Some i \<Rightarrow>
          (case castObjectId userId of
             None \<Rightarrow> notes
           | Some u \<Rightarrow> snd (findOneAndUpdate (\<lambda>n. note_id n = i \<and> user n = u)
                              (apply_update now (b ''title'') (b ''content'')) notes)))"
  by (auto simp: updateNote_def split: option.splits prod.splits)

lemma deleteNote_store:
  "snd (deleteNote userId rid notes) =
     (case castObjectId rid of
        None \<Rightarrow> notes
      | Some i \<Rightarrow>
          (case castObjectId userId of
             None \<Rightarrow> notes
           | Some u \<Rightarrow> snd (findOneAndDelete (\<lambda>n. note_id n = i \<and> user n = u) notes)))"
  by (auto simp: deleteNote_def split: option.splits prod.splits)

lemma note_ids_stay_unique:
  assumes "distinct (map note_id notes)"
  shows "distinct (map note_id (snd (createNote now newid userId b notes)))"
    and "distinct (map note_id (snd (updateNote now userId rid b notes)))"
    and "distinct (map note_id (snd (deleteNote userId rid notes)))"
proof -
  show "distinct (map note_id (snd (createNote now newid userId b notes)))"
    using assms
    by (auto simp: createNote_def Note_save_def Let_def split: option.splits if_splits)
next
  have "\<And>n. note_id (apply_update now (b ''title'') (b ''content'') n) = note_id n"
    by (simp add: apply_update_def)
  then have "map note_id (snd (updateNote now userId rid b notes)) = map note_id notes"
    by (simp add: updateNote_store findOneAndUpdate_keeps_ids split: option.splits)
  with assms show "distinct (map note_id (snd (updateNote now userId rid b notes)))"
    by simp
next
  show "distinct (map note_id (snd (deleteNote userId rid notes)))"
    using assms by (simp add: deleteNote_store findOneAndDelete_keeps_distinct split: option.splits)
qed

lemma usernames_stay_unique:
  assumes "distinct (map username users)"
  shows "distinct (map username (snd (register bcrypt_hash salt now newid b users)))"
  using assms
  by (auto simp: register_def User_save_def Let_def split: option.splits if_splits)

section \<open>Casts of the sample ids\<close>

lemma cast_alice_id: "castObjectId alice_id = Some alice_id"
  by (simp add: castObjectId_def is_hex_def lower_hex_def alice_id_def)

lemma cast_bob_id: "castObjectId bob_id = Some bob_id"
  by (simp add: castObjectId_def is_hex_def lower_hex_def bob_id_def)

lemma cast_alice_id_upper: "castObjectId ''64B7F0A1C2D3E4F5A6B7C8D1'' = Some alice_id"
  by (simp add: castObjectId_def is_hex_def lower_hex_def alice_id_def)

lemma cast_alice_note: "castObjectId ''64B7F0A1C2D3E4F5A6B7C8E1'' = Some (note_id alice_note)"
  by (simp add: castObjectId_def is_hex_def lower_hex_def alice_note_def)

lemma cast_absent: "castObjectId ''64b7f0a1c2d3e4f5a6b7c8ff'' = Some ''64b7f0a1c2d3e4f5a6b7c8ff''"
  by (simp add: castObjectId_def is_hex_def lower_hex_def)

lemma cast_abc: "castObjectId ''abc'' = None"
  by (simp add: castObjectId_def)

lemma find_append_no_match:
  "find P xs = None \<Longrightarrow> find P (xs @ ys) = find P ys"
  by (induction xs) (auto split: if_splits)

section \<open>Listing\<close>








section \<open>Ownership isolation\<close>

text \<open>
  Claim C1, as stated, makes the answer for another user's note the answer for any note
  id that does not exist, and makes it 404 for every other identity. An id that is not an
  ObjectId does not exist either, but the cast of the filter throws and the handlers
  answer 500, which differs from the 404 given for the other user's note; an identity
  that is not an ObjectId is answered 500 as well.
\<close>

theorem other_user_vs_malformed_id_counterexample:
  "''abc'' \<notin> set (map note_id [alice_note, bob_note])
   \<and> getNoteById bob_id ''64B7F0A1C2D3E4F5A6B7C8E1'' [alice_note, bob_note]
       = \<lparr>status = 404, json = Message ''Note not found!''\<rparr>
   \<and> getNoteById bob_id ''abc'' [alice_note, bob_note]
       = \<lparr>status = 500, json = Message ''Internal server error''\<rparr>
   \<and> fst (updateNote 3000 bob_id ''abc'' [''title'' \<mapsto> ''mine''] [alice_note, bob_note])
       = \<lparr>status = 500, json = Message ''Internal server error''\<rparr>
   \<and> fst (deleteNote bob_id ''abc'' [alice_note, bob_note])
       = \<lparr>status = 500, json = Message ''Internal server error''\<rparr>
   \<and> getNoteById ''abc'' ''64B7F0A1C2D3E4F5A6B7C8E1'' [alice_note, bob_note]
       = \<lparr>status = 500, json = Message ''Internal server error''\<rparr>"
  by (simp add: getNoteById_def updateNote_def deleteNote_def castObjectId_def is_hex_def lower_hex_def
      Note_findOne_def respond_def alice_note_def bob_note_def alice_id_def bob_id_def)

text \<open>
  Claim C1, amended. Let a note be stored under owner A and let B be an identity that is
  an ObjectId other than A. With B's identity and the note's id, \<open>get\<close>, \<open>update\<close> and
  \<open>delete\<close> answer 404 with the not-found message, the answer is the one given for a
  well-formed id that no stored note has, the response carries no note, and the
  collection is unchanged.
\<close>

theorem other_user_note_not_found:
  assumes "n \<in> set notes" and "distinct (map note_id notes)"
    and "castObjectId userB = Some ub" and "user n \<noteq> ub"
    and "castObjectId rid = Some (note_id n)"
    and "castObjectId rid' = Some j" and "j \<notin> set (map note_id notes)"
  shows "getNoteById userB rid notes = \<lparr>status = 404, json = Message ''Note not found!''\<rparr>
       \<and> getNoteById userB rid' notes = getNoteById userB rid notes
       \<and> updateNote now userB rid b notes = (\<lparr>status = 404, json = Message ''Note not found''\<rparr>, notes)
       \<and> updateNote now userB rid' b notes = updateNote now userB rid b notes
       \<and> deleteNote userB rid notes = (\<lparr>status = 404, json = Message ''Note not found''\<rparr>, notes)
       \<and> deleteNote userB rid' notes = deleteNote userB rid notes"
proof -
  let ?P = "\<lambda>m. note_id m = note_id n \<and> user m = ub"
  let ?Q = "\<lambda>m. note_id m = j \<and> user m = ub"
  have p: "find ?P notes = None"
    using assms(1,2,4) by (rule find_other_owner)
  have q: "find ?Q notes = None"
    using assms(7) by (rule find_absent_id)
  have g: "getNoteById userB rid notes = \<lparr>status = 404, json = Message ''Note not found!''\<rparr>"
    using p assms(3,5) by (simp add: getNoteById_def Note_findOne_def respond_def)
  have g': "getNoteById userB rid' notes = \<lparr>status = 404, json = Message ''Note not found!''\<rparr>"
    using q assms(3,6) by (simp add: getNoteById_def Note_findOne_def respond_def)
  have u: "updateNote now userB rid b notes = (\<lparr>status = 404, json = Message ''Note not found''\<rparr>, notes)"
    using assms(3,5) findOneAndUpdate_no_match [OF p] by (simp add: updateNote_def respond_def)
  have u': "updateNote now userB rid' b notes = (\<lparr>status = 404, json = Message ''Note not found''\<rparr>, notes)"
    using assms(3,6) findOneAndUpdate_no_match [OF q] by (simp add: updateNote_def respond_def)
  have d: "deleteNote userB rid notes = (\<lparr>status = 404, json = Message ''Note not found''\<rparr>, notes)"
    using assms(3,5) findOneAndDelete_no_match [OF p] by (simp add: deleteNote_def respond_def)
  have d': "deleteNote userB rid' notes = (\<lparr>status = 404, json = Message ''Note not found''\<rparr>, notes)"
    using assms(3,6) findOneAndDelete_no_match [OF q] by (simp add: deleteNote_def respond_def)
  from g g' u u' d d' show ?thesis by simp
qed

theorem other_user_note_not_found_witness:
  "getNoteById bob_id ''64B7F0A1C2D3E4F5A6B7C8E1'' [alice_note, bob_note]
      = \<lparr>status = 404, json = Message ''Note not found!''\<rparr>
   \<and> getNoteById bob_id ''64b7f0a1c2d3e4f5a6b7c8ff'' [alice_note, bob_note]
      = getNoteById bob_id ''64B7F0A1C2D3E4F5A6B7C8E1'' [alice_note, bob_note]
   \<and> updateNote 3000 bob_id ''64B7F0A1C2D3E4F5A6B7C8E1'' [''title'' \<mapsto> ''mine''] [alice_note, bob_note]
      = (\<lparr>status = 404, json = Message ''Note not found''\<rparr>, [alice_note, bob_note])
   \<and> updateNote 3000 bob_id ''64b7f0a1c2d3e4f5a6b7c8ff'' [''title'' \<mapsto> ''mine''] [alice_note, bob_note]
      = updateNote 3000 bob_id ''64B7F0A1C2D3E4F5A6B7C8E1'' [''title'' \<mapsto> ''mine''] [alice_note, bob_note]
   \<and> deleteNote bob_id ''64B7F0A1C2D3E4F5A6B7C8E1'' [alice_note, bob_note]
      = (\<lparr>status = 404, json = Message ''Note not found''\<rparr>, [alice_note, bob_note])
   \<and> deleteNote bob_id ''64b7f0a1c2d3e4f5a6b7c8ff'' [alice_note, bob_note]
      = deleteNote bob_id ''64B7F0A1C2D3E4F5A6B7C8E1'' [alice_note, bob_note]"
proof -
  have 1: "alice_note \<in> set [alice_note, bob_note]" by simp
  have 2: "distinct (map note_id [alice_note, bob_note])"
    by (simp add: alice_note_def bob_note_def)
  have 4: "user alice_note \<noteq> bob_id"
    by (simp add: alice_note_def alice_id_def bob_id_def)
  have 7: "''64b7f0a1c2d3e4f5a6b7c8ff'' \<notin> set (map note_id [alice_note, bob_note])"
    by (simp add: alice_note_def bob_note_def)
  from other_user_note_not_found [OF 1 2 cast_bob_id 4 cast_alice_note cast_absent 7,
      of 3000 "[''title'' \<mapsto> ''mine'']"]
  show ?thesis .
qed

section \<open>Update\<close>

text \<open>
  Claim C6, as stated, promises NotFoundError whenever no note matches the id and the
  owner. It fails on a note id, and likewise on an identity, that is not an ObjectId: the
  cast of the filter throws before any lookup, and the handler's \<^verbatim>\<open>catch\<close> answers 500.
\<close>

theorem updateNote_malformed_id_counterexample:
  "find (\<lambda>n. note_id n = ''abc'' \<and> user n = bob_id) [alice_note, bob_note] = None
   \<and> updateNote 3000 bob_id ''abc'' [''title'' \<mapsto> ''x'', ''content'' \<mapsto> ''y''] [alice_note, bob_note]
       = (\<lparr>status = 500, json = Message ''Internal server error''\<rparr>, [alice_note, bob_note])
   \<and> find (\<lambda>n. note_id n = note_id alice_note \<and> user n = ''abc'') [alice_note, bob_note] = None
   \<and> updateNote 3000 ''abc'' ''64B7F0A1C2D3E4F5A6B7C8E1'' [''title'' \<mapsto> ''x''] [alice_note, bob_note]
       = (\<lparr>status = 500, json = Message ''Internal server error''\<rparr>, [alice_note, bob_note])"
  by (simp add: updateNote_def castObjectId_def is_hex_def lower_hex_def respond_def
      alice_note_def bob_note_def alice_id_def bob_id_def)

text \<open>
  Claim C6, amended. For a well-formed note id, an identity that is an ObjectId and a
  collection with unique ids: if a note matches the id and the owner, it is the only note
  with that id, it is replaced by its updated form in one step, and the answer is 200
  with the updated record; if none matches (no such note, or another user's), the answer
  is 404 and the collection is unchanged.
\<close>

theorem updateNote_find_and_update:
  assumes "castObjectId rid = Some i" and "castObjectId userId = Some u"
    and "distinct (map note_id notes)"
  shows "case Note_findOne i u notes of
           None \<Rightarrow>
             updateNote now userId rid b notes
               = (\<lparr>status = 404, json = Message ''Note not found''\<rparr>, notes)
         | Some n \<Rightarrow>
             filter (\<lambda>m. note_id m = i) notes = [n] \<and> user n = u
             \<and> updateNote now userId rid b notes
               = (\<lparr>status = 200, json = NoteJson (apply_update now (b ''title'') (b ''content'') n)\<rparr>,
                  map (\<lambda>m. if note_id m = i then apply_update now (b ''title'') (b ''content'') m else m) notes)"
proof (cases "Note_findOne i u notes")
  case None
  then have "find (\<lambda>n. note_id n = i \<and> user n = u) notes = None"
    by (simp add: Note_findOne_def)
  from findOneAndUpdate_no_match [OF this] assms(1,2) None show ?thesis
    by (simp add: updateNote_def respond_def)
next
  case (Some n)
  let ?f = "apply_update now (b ''title'') (b ''content'')"
  from Some have f: "find (\<lambda>n. note_id n = i \<and> user n = u) notes = Some n"
    by (simp add: Note_findOne_def)
  then have own: "note_id n = i \<and> user n = u"
    by (auto simp: find_Some_iff)
  have single: "filter (\<lambda>m. note_id m = i) notes = [n]"
    using assms(3) f by (rule find_unique_match)
  from findOneAndUpdate_match [OF f] obtain k where k: "k < length notes" "notes ! k = n"
    "findOneAndUpdate (\<lambda>n. note_id n = i \<and> user n = u) ?f notes = (Some (?f n), notes[k := ?f n])"
    by blast
  have "notes[k := ?f n] = map (\<lambda>m. if note_id m = i then ?f m else m) notes"
  proof (rule nth_equalityI)
    show "length (notes[k := ?f n]) = length (map (\<lambda>m. if note_id m = i then ?f m else m) notes)"
      by simp
  next
    fix j assume "j < length (notes[k := ?f n])"
    then have j: "j < length notes" by simp
    show "notes[k := ?f n] ! j = map (\<lambda>m. if note_id m = i then ?f m else m) notes ! j"
    proof (cases "j = k")
      case True
      with k own j show ?thesis by simp
    next
      case False
      have "note_id (notes ! j) \<noteq> i"
      proof
        assume "note_id (notes ! j) = i"
        with own k(2) have "map note_id notes ! j = map note_id notes ! k"
          using j k(1) by simp
        with nth_eq_iff_index_eq [OF assms(3), of j k] j k(1) have "j = k"
          by simp
        with False show False by simp
      qed
      with False j show ?thesis by simp
    qed
  qed
  with k(3) assms(1,2) Some single own show ?thesis
    by (simp add: updateNote_def respond_def)
qed

theorem updateNote_find_and_update_witness:
  "updateNote 3000 bob_id ''64B7F0A1C2D3E4F5A6B7C8E1'' [''title'' \<mapsto> ''mine''] [alice_note, bob_note]
     = (\<lparr>status = 404, json = Message ''Note not found''\<rparr>, [alice_note, bob_note])
   \<and> updateNote 3000 ''64B7F0A1C2D3E4F5A6B7C8D1'' ''64B7F0A1C2D3E4F5A6B7C8E1'' [''title'' \<mapsto> ''shopping'']
        [alice_note, bob_note]
     = (\<lparr>status = 200, json = NoteJson (alice_note\<lparr>title := ''shopping'', updatedAt := 3000\<rparr>)\<rparr>,
        [alice_note\<lparr>title := ''shopping'', updatedAt := 3000\<rparr>, bob_note])"
proof -
  have d: "distinct (map note_id [alice_note, bob_note])"
    by (simp add: alice_note_def bob_note_def)
  have nf: "Note_findOne (note_id alice_note) bob_id [alice_note, bob_note] = None"
    by (simp add: Note_findOne_def alice_note_def bob_note_def alice_id_def bob_id_def)
  have fd: "Note_findOne (note_id alice_note) alice_id [alice_note, bob_note] = Some alice_note"
    by (simp add: Note_findOne_def alice_note_def)
  have ids: "note_id bob_note \<noteq> note_id alice_note"
    by (simp add: alice_note_def bob_note_def)
  from updateNote_find_and_update [OF cast_alice_note cast_bob_id d,
      where now = 3000 and b = "[''title'' \<mapsto> ''mine'']"] nf
  have a: "updateNote 3000 bob_id ''64B7F0A1C2D3E4F5A6B7C8E1'' [''title'' \<mapsto> ''mine''] [alice_note, bob_note]
     = (\<lparr>status = 404, json = Message ''Note not found''\<rparr>, [alice_note, bob_note])"
    by simp
  from updateNote_find_and_update [OF cast_alice_note cast_alice_id_upper d,
      where now = 3000 and b = "[''title'' \<mapsto> ''shopping'']"] fd ids
  have b: "updateNote 3000 ''64B7F0A1C2D3E4F5A6B7C8D1'' ''64B7F0A1C2D3E4F5A6B7C8E1'' [''title'' \<mapsto> ''shopping'']
        [alice_note, bob_note]
     = (\<lparr>status = 200, json = NoteJson (alice_note\<lparr>title := ''shopping'', updatedAt := 3000\<rparr>)\<rparr>,
        [alice_note\<lparr>title := ''shopping'', updatedAt := 3000\<rparr>, bob_note])"
    by (simp add: apply_update_def)
  from a b show ?thesis by simp
qed


section \<open>Delete\<close>

text \<open>
  Claim C7, as stated, promises NotFoundError whenever no note matches the id and the
  owner. It fails on a note id, and likewise on an identity, that is not an ObjectId: the
  cast of the filter throws and the handler answers 500.
\<close>

theorem deleteNote_malformed_id_counterexample:
  "find (\<lambda>n. note_id n = ''42'' \<and> user n = alice_id) [alice_note, bob_note] = None
   \<and> deleteNote alice_id ''42'' [alice_note, bob_note]
       = (\<lparr>status = 500, json = Message ''Internal server error''\<rparr>, [alice_note, bob_note])
   \<and> find (\<lambda>n. note_id n = note_id alice_note \<and> user n = ''abc'') [alice_note, bob_note] = None
   \<and> deleteNote ''abc'' ''64B7F0A1C2D3E4F5A6B7C8E1'' [alice_note, bob_note]
       = (\<lparr>status = 500, json = Message ''Internal server error''\<rparr>, [alice_note, bob_note])"
  by (simp add: deleteNote_def castObjectId_def is_hex_def lower_hex_def respond_def
      alice_note_def bob_note_def alice_id_def bob_id_def)

text \<open>
  Claim C7, amended. For a well-formed note id, an identity that is an ObjectId and a
  collection with unique ids: if no note matches the id and the owner, the answer is 404
  and nothing is removed; otherwise the single matching note is removed in one step and
  the answer is 200 with the success message. The removal is hard: the collection is one
  document shorter, no document keeps the id, and a later \<open>get\<close> of the id answers 404.
\<close>

theorem deleteNote_find_and_remove:
  assumes "castObjectId rid = Some i" and "castObjectId userId = Some u"
    and "distinct (map note_id notes)"
  shows "case Note_findOne i u notes of
           None \<Rightarrow>
             deleteNote userId rid notes
               = (\<lparr>status = 404, json = Message ''Note not found''\<rparr>, notes)
         | Some n \<Rightarrow>
             filter (\<lambda>m. note_id m = i) notes = [n] \<and> user n = u
             \<and> deleteNote userId rid notes
               = (\<lparr>status = 200, json = Message ''Note deleted successfully!''\<rparr>, remove1 n notes)
             \<and> i \<notin> set (map note_id (remove1 n notes))
             \<and> Suc (length (remove1 n notes)) = length notes
             \<and> getNoteById userId rid (remove1 n notes)
               = \<lparr>status = 404, json = Message ''Note not found!''\<rparr>"
proof (cases "Note_findOne i u notes")
  case None
  then have "find (\<lambda>n. note_id n = i \<and> user n = u) notes = None"
    by (simp add: Note_findOne_def)
  from findOneAndDelete_no_match [OF this] assms(1,2) None show ?thesis
    by (simp add: deleteNote_def respond_def)
next
  case (Some n)
  from Some have f: "find (\<lambda>n. note_id n = i \<and> user n = u) notes = Some n"
    by (simp add: Note_findOne_def)
  then have own: "note_id n = i \<and> user n = u" and mem: "n \<in> set notes"
    by (auto simp: find_Some_iff)
  have single: "filter (\<lambda>m. note_id m = i) notes = [n]"
    using assms(3) f by (rule find_unique_match)
  have del: "deleteNote userId rid notes
      = (\<lparr>status = 200, json = Message ''Note deleted successfully!''\<rparr>, remove1 n notes)"
    using findOneAndDelete_match [OF f] assms(1,2) by (simp add: deleteNote_def respond_def)
  have dn: "distinct notes"
    using assms(3) by (simp add: distinct_map)
  have gone: "i \<notin> set (map note_id (remove1 n notes))"
  proof
    assume "i \<in> set (map note_id (remove1 n notes))"
    then obtain m where m: "m \<in> set (remove1 n notes)" "note_id m = i" by auto
    with dn have "m \<in> set notes" "m \<noteq> n" by auto
    with m(2) have "m \<in> set (filter (\<lambda>m. note_id m = i) notes)" by simp
    with single \<open>m \<noteq> n\<close> show False by simp
  qed
  have len: "Suc (length (remove1 n notes)) = length notes"
    using mem length_pos_if_in_set [OF mem] by (simp add: length_remove1)
  have "find (\<lambda>m. note_id m = i \<and> user m = u) (remove1 n notes) = None"
    using gone by (rule find_absent_id)
  then have "getNoteById userId rid (remove1 n notes) = \<lparr>status = 404, json = Message ''Note not found!''\<rparr>"
    using assms(1,2) by (simp add: getNoteById_def Note_findOne_def respond_def)
  with Some single own del gone len show ?thesis by simp
qed

theorem deleteNote_find_and_remove_witness:
  "deleteNote bob_id ''64B7F0A1C2D3E4F5A6B7C8E1'' [alice_note, bob_note]
     = (\<lparr>status = 404, json = Message ''Note not found''\<rparr>, [alice_note, bob_note])
   \<and> deleteNote ''64B7F0A1C2D3E4F5A6B7C8D1'' ''64B7F0A1C2D3E4F5A6B7C8E1'' [alice_note, bob_note]
     = (\<lparr>status = 200, json = Message ''Note deleted successfully!''\<rparr>, [bob_note])
   \<and> getNoteById ''64B7F0A1C2D3E4F5A6B7C8D1'' ''64B7F0A1C2D3E4F5A6B7C8E1'' [bob_note]
     = \<lparr>status = 404, json = Message ''Note not found!''\<rparr>"
proof -
  have d: "distinct (map note_id [alice_note, bob_note])"
    by (simp add: alice_note_def bob_note_def)
  have nf: "Note_findOne (note_id alice_note) bob_id [alice_note, bob_note] = None"
    by (simp add: Note_findOne_def alice_note_def bob_note_def alice_id_def bob_id_def)
  have fd: "Note_findOne (note_id alice_note) alice_id [alice_note, bob_note] = Some alice_note"
    by (simp add: Note_findOne_def alice_note_def)
  from deleteNote_find_and_remove [OF cast_alice_note cast_bob_id d] nf
  have a: "deleteNote bob_id ''64B7F0A1C2D3E4F5A6B7C8E1'' [alice_note, bob_note]
     = (\<lparr>status = 404, json = Message ''Note not found''\<rparr>, [alice_note, bob_note])"
    by simp
  from deleteNote_find_and_remove [OF cast_alice_note cast_alice_id_upper d] fd
  have b: "deleteNote ''64B7F0A1C2D3E4F5A6B7C8D1'' ''64B7F0A1C2D3E4F5A6B7C8E1'' [alice_note, bob_note]
     = (\<lparr>status = 200, json = Message ''Note deleted successfully!''\<rparr>, [bob_note])
     \<and> getNoteById ''64B7F0A1C2D3E4F5A6B7C8D1'' ''64B7F0A1C2D3E4F5A6B7C8E1'' [bob_note]
     = \<lparr>status = 404, json = Message ''Note not found!''\<rparr>"
    by simp
  from a b show ?thesis by simp
qed

section \<open>Frame of an update\<close>

lemma findOneAndUpdate_first_match:
  "find P ns = Some n \<Longrightarrow>
     \<exists>k<length ns. ns ! k = n \<and> P n \<and> (\<forall>j<k. \<not> P (ns ! j))
        \<and> findOneAndUpdate P f ns = (Some (f n), ns[k := f n])"
proof (induction ns)
  case Nil
  then show ?case by simp
next
  case (Cons m ms)
  show ?case
  proof (cases "P m")
    case True
    with Cons.prems have "m = n" by simp
    with True have "0 < length (m # ms) \<and> (m # ms) ! 0 = n \<and> P n \<and> (\<forall>j<0. \<not> P ((m # ms) ! j))
        \<and> findOneAndUpdate P f (m # ms) = (Some (f n), (m # ms)[0 := f n])"
      by simp
    then show ?thesis by blast
  next
    case False
    with Cons.prems have "find P ms = Some n" by simp
    from Cons.IH [OF this] obtain k where k: "k < length ms" "ms ! k = n" "P n"
      "\<forall>j<k. \<not> P (ms ! j)"
      "findOneAndUpdate P f ms = (Some (f n), ms[k := f n])" by blast
    have "\<forall>j<Suc k. \<not> P ((m # ms) ! j)"
    proof (intro allI impI)
      fix j assume "j < Suc k"
      with False k(4) show "\<not> P ((m # ms) ! j)" by (cases j) auto
    qed
    with False k have "Suc k < length (m # ms) \<and> (m # ms) ! Suc k = n \<and> P n
        \<and> (\<forall>j<Suc k. \<not> P ((m # ms) ! j))
        \<and> findOneAndUpdate P f (m # ms) = (Some (f n), (m # ms)[Suc k := f n])"
      by simp
    then show ?thesis by blast
  qed
qed

lemma updateNote_success_cases:
  assumes "status (fst (updateNote now userId rid b notes)) = 200"
  shows "\<exists>i u n. castObjectId rid = Some i \<and> castObjectId userId = Some u
           \<and> find (\<lambda>n. note_id n = i \<and> user n = u) notes = Some n"
proof (cases "castObjectId rid")
  case None
  with assms show ?thesis by (simp add: updateNote_def respond_def)
next
  case i: (Some i)
  show ?thesis
  proof (cases "castObjectId userId")
    case None
    with i assms show ?thesis by (simp add: updateNote_def respond_def)
  next
    case u: (Some u)
    show ?thesis
    proof (cases "find (\<lambda>n. note_id n = i \<and> user n = u) notes")
      case None
      from findOneAndUpdate_no_match [OF this] i u assms show ?thesis
        by (simp add: updateNote_def respond_def)
    next
      case (Some n)
      with i u show ?thesis by simp
    qed
  qed
qed

text \<open>
  Claim C10. A successful update replaces one stored note, the first whose id is the
  route id and whose owner is the caller, by a note with the same id, owner and creation
  time, and leaves every other document as it was; a title or content that the request
  body lacks keeps its stored value; and success does not depend on the body: the same
  request with any other body, also one without title and content, is answered 200 as
  well.
\<close>

theorem updateNote_frame:
  assumes "updateNote now userId rid b notes = (r, notes')" and "status r = 200"
  shows "\<exists>i u k n'. castObjectId rid = Some i \<and> castObjectId userId = Some u
       \<and> k < length notes \<and> note_id (notes ! k) = i \<and> user (notes ! k) = u
       \<and> (\<forall>j<k. \<not> (note_id (notes ! j) = i \<and> user (notes ! j) = u))
       \<and> json r = NoteJson n' \<and> notes' = notes[k := n']
       \<and> note_id n' = note_id (notes ! k) \<and> user n' = user (notes ! k)
       \<and> createdAt n' = createdAt (notes ! k)
       \<and> title n' = (case b ''title'' of None \<Rightarrow> title (notes ! k) | Some t \<Rightarrow> t)
       \<and> content n' = (case b ''content'' of None \<Rightarrow> content (notes ! k) | Some c \<Rightarrow> c)
       \<and> status (fst (updateNote now userId rid b' notes)) = 200"
proof -
  from assms have "status (fst (updateNote now userId rid b notes)) = 200" by simp
  from updateNote_success_cases [OF this] obtain i u n where
    c: "castObjectId rid = Some i" and cu: "castObjectId userId = Some u"
    and f: "find (\<lambda>n. note_id n = i \<and> user n = u) notes = Some n"
    by blast
  let ?f = "apply_update now (b ''title'') (b ''content'')"
  let ?g = "apply_update now (b' ''title'') (b' ''content'')"
  from findOneAndUpdate_first_match [OF f, of ?f] obtain k where k: "k < length notes" "notes ! k = n"
    "note_id n = i \<and> user n = u"
    "\<forall>j<k. \<not> (note_id (notes ! j) = i \<and> user (notes ! j) = u)"
    "findOneAndUpdate (\<lambda>n. note_id n = i \<and> user n = u) ?f notes = (Some (?f n), notes[k := ?f n])"
    by blast
  from findOneAndUpdate_match [OF f, of ?g] obtain k' where
    "findOneAndUpdate (\<lambda>n. note_id n = i \<and> user n = u) ?g notes = (Some (?g n), notes[k' := ?g n])"
    by blast
  with c cu have other: "status (fst (updateNote now userId rid b' notes)) = 200"
    by (simp add: updateNote_def respond_def)
  from k(5) c cu assms(1) have r: "json r = NoteJson (?f n)" "notes' = notes[k := ?f n]"
    by (auto simp: updateNote_def respond_def)
  have "note_id (?f n) = note_id n \<and> user (?f n) = user n \<and> createdAt (?f n) = createdAt n
      \<and> title (?f n) = (case b ''title'' of None \<Rightarrow> title n | Some t \<Rightarrow> t)
      \<and> content (?f n) = (case b ''content'' of None \<Rightarrow> content n | Some c \<Rightarrow> c)"
    by (simp add: apply_update_def)
  with c cu k(1,2,3,4) r other show ?thesis by blast
qed


theorem updateNote_frame_witness:
  "updateNote 3000 ''64B7F0A1C2D3E4F5A6B7C8D1'' ''64B7F0A1C2D3E4F5A6B7C8E1''
        [''content'' \<mapsto> ''milk and eggs''] [bob_note, alice_note]
     = (\<lparr>status = 200, json = NoteJson (alice_note\<lparr>content := ''milk and eggs'', updatedAt := 3000\<rparr>)\<rparr>,
        [bob_note, alice_note\<lparr>content := ''milk and eggs'', updatedAt := 3000\<rparr>])
   \<and> (\<exists>k n'. k < length [bob_note, alice_note]
        \<and> note_id ([bob_note, alice_note] ! k) = note_id alice_note
        \<and> user ([bob_note, alice_note] ! k) = alice_id
        \<and> NoteJson (alice_note\<lparr>content := ''milk and eggs'', updatedAt := 3000\<rparr>) = NoteJson n'
        \<and> [bob_note, alice_note\<lparr>content := ''milk and eggs'', updatedAt := 3000\<rparr>]
            = [bob_note, alice_note][k := n']
        \<and> note_id n' = note_id ([bob_note, alice_note] ! k)
        \<and> user n' = user ([bob_note, alice_note] ! k)
        \<and> createdAt n' = createdAt ([bob_note, alice_note] ! k)
        \<and> title n' = title ([bob_note, alice_note] ! k)
        \<and> content n' = ''milk and eggs'')
   \<and> status (fst (updateNote 3000 ''64B7F0A1C2D3E4F5A6B7C8D1'' ''64B7F0A1C2D3E4F5A6B7C8E1''
        Map.empty [bob_note, alice_note])) = 200"
proof -
  have run: "updateNote 3000 ''64B7F0A1C2D3E4F5A6B7C8D1'' ''64B7F0A1C2D3E4F5A6B7C8E1''
        [''content'' \<mapsto> ''milk and eggs''] [bob_note, alice_note]
     = (\<lparr>status = 200, json = NoteJson (alice_note\<lparr>content := ''milk and eggs'', updatedAt := 3000\<rparr>)\<rparr>,
        [bob_note, alice_note\<lparr>content := ''milk and eggs'', updatedAt := 3000\<rparr>])"
    using cast_alice_note cast_alice_id_upper
    by (simp add: updateNote_def respond_def apply_update_def alice_note_def bob_note_def)
  have ok: "status \<lparr>status = 200, json = NoteJson (alice_note\<lparr>content := ''milk and eggs'', updatedAt := 3000\<rparr>)\<rparr> = 200"
    by simp
  from updateNote_frame [OF run ok, where b' = Map.empty] obtain i u k n' where
    w: "castObjectId ''64B7F0A1C2D3E4F5A6B7C8E1'' = Some i"
       "castObjectId ''64B7F0A1C2D3E4F5A6B7C8D1'' = Some u"
       "k < length [bob_note, alice_note]"
       "note_id ([bob_note, alice_note] ! k) = i" "user ([bob_note, alice_note] ! k) = u"
       "json \<lparr>status = 200, json = NoteJson (alice_note\<lparr>content := ''milk and eggs'', updatedAt := 3000\<rparr>)\<rparr>
          = NoteJson n'"
       "[bob_note, alice_note\<lparr>content := ''milk and eggs'', updatedAt := 3000\<rparr>] = [bob_note, alice_note][k := n']"
       "note_id n' = note_id ([bob_note, alice_note] ! k)"
       "user n' = user ([bob_note, alice_note] ! k)"
       "createdAt n' = createdAt ([bob_note, alice_note] ! k)"
       "title n' = (case [''content'' \<mapsto> ''milk and eggs''] ''title'' of
                      None \<Rightarrow> title ([bob_note, alice_note] ! k) | Some t \<Rightarrow> t)"
       "content n' = (case [''content'' \<mapsto> ''milk and eggs''] ''content'' of
                      None \<Rightarrow> content ([bob_note, alice_note] ! k) | Some c \<Rightarrow> c)"
       "status (fst (updateNote 3000 ''64B7F0A1C2D3E4F5A6B7C8D1'' ''64B7F0A1C2D3E4F5A6B7C8E1''
          Map.empty [bob_note, alice_note])) = 200"
    by blast
  from w(1) cast_alice_note have i: "i = note_id alice_note" by simp
  from w(2) cast_alice_id_upper have u: "u = alice_id" by simp
  from w(6) have j: "NoteJson (alice_note\<lparr>content := ''milk and eggs'', updatedAt := 3000\<rparr>) = NoteJson n'"
    by simp
  from w(11) have t: "title n' = title ([bob_note, alice_note] ! k)" by simp
  from w(12) have c: "content n' = ''milk and eggs''" by simp
  from run w(3,4,5,7,8,9,10,13) i u j t c show ?thesis by blast
qed

section \<open>Create, then get\<close>

text \<open>
  Claim C8, as stated, lets every \<open>create(userId, title, content)\<close> persist a note. The
  schema marks title and content as required, and \<^verbatim>\<open>save\<close> rejects a missing or empty
  value; it also rejects an owner that is not an ObjectId. In each case the handler
  answers 500 and stores nothing.
\<close>

theorem createNote_required_counterexample:
  "createNote 3000 ''64b7f0a1c2d3e4f5a6b7c8e3'' alice_id [''title'' \<mapsto> ''t''] [bob_note]
     = (\<lparr>status = 500, json = Message ''Internal server error''\<rparr>, [bob_note])
   \<and> createNote 3000 ''64b7f0a1c2d3e4f5a6b7c8e3'' alice_id [''title'' \<mapsto> ''t'', ''content'' \<mapsto> ''''] [bob_note]
     = (\<lparr>status = 500, json = Message ''Internal server error''\<rparr>, [bob_note])
   \<and> createNote 3000 ''64b7f0a1c2d3e4f5a6b7c8e3'' ''abc'' [''title'' \<mapsto> ''t'', ''content'' \<mapsto> ''c''] [bob_note]
     = (\<lparr>status = 500, json = Message ''Internal server error''\<rparr>, [bob_note])"
  by (simp add: createNote_def Note_save_def required_string_def respond_def cast_abc cast_alice_id)

text \<open>
  Claim C8, amended. For every authenticated user whose identity is an ObjectId, every
  non-empty title and content and a generated id not yet in the collection, \<open>create\<close>
  appends one note owned by that user (whatever else the body holds, such as a \<open>user\<close>
  field), answers 201 with the note, its id and both timestamps, and a later \<open>get\<close> by the
  same user with that id answers 200 with the same record, so with the same title and
  content.
\<close>

theorem createNote_then_get:
  assumes "castObjectId userId = Some u"
    and "b ''title'' = Some t" and "t \<noteq> []" and "b ''content'' = Some c" and "c \<noteq> []"
    and "newid \<notin> set (map note_id notes)" and "castObjectId rid = Some newid"
  shows "\<exists>n. createNote now newid userId b notes = (\<lparr>status = 201, json = NoteJson n\<rparr>, notes @ [n])
       \<and> note_id n = newid \<and> user n = u \<and> title n = t \<and> content n = c
       \<and> createdAt n = now \<and> updatedAt n = now
       \<and> getNoteById userId rid (notes @ [n]) = \<lparr>status = 200, json = NoteJson n\<rparr>"
proof -
  let ?n = "\<lparr>note_id = newid, title = t, content = c, user = u, createdAt = now, updatedAt = now\<rparr>"
  have cr: "createNote now newid userId b notes = (\<lparr>status = 201, json = NoteJson ?n\<rparr>, notes @ [?n])"
    using assms(1-6) by (simp add: createNote_def Note_save_def required_string_def respond_def Let_def)
  have "find (\<lambda>m. note_id m = newid \<and> user m = u) notes = None"
    using assms(6) by (rule find_absent_id)
  then have "find (\<lambda>m. note_id m = newid \<and> user m = u) (notes @ [?n]) = Some ?n"
    by (simp add: find_append_no_match)
  then have "getNoteById userId rid (notes @ [?n]) = \<lparr>status = 200, json = NoteJson ?n\<rparr>"
    using assms(1,7) by (simp add: getNoteById_def Note_findOne_def respond_def)
  with cr show ?thesis by simp
qed

theorem createNote_then_get_witness:
  "\<exists>n. createNote 3000 ''64b7f0a1c2d3e4f5a6b7c8ff'' alice_id
          [''title'' \<mapsto> ''t'', ''content'' \<mapsto> ''c'', ''user'' \<mapsto> bob_id] [alice_note, bob_note]
        = (\<lparr>status = 201, json = NoteJson n\<rparr>, [alice_note, bob_note] @ [n])
     \<and> note_id n = ''64b7f0a1c2d3e4f5a6b7c8ff'' \<and> user n = alice_id \<and> title n = ''t'' \<and> content n = ''c''
     \<and> createdAt n = 3000 \<and> updatedAt n = 3000
     \<and> getNoteById alice_id ''64b7f0a1c2d3e4f5a6b7c8ff'' ([alice_note, bob_note] @ [n])
        = \<lparr>status = 200, json = NoteJson n\<rparr>"
proof -
  let ?b = "[''title'' \<mapsto> ''t'', ''content'' \<mapsto> ''c'', ''user'' \<mapsto> bob_id]"
  have 1: "?b ''title'' = Some ''t''" by simp
  have 2: "''t'' \<noteq> []" by simp
  have 3: "?b ''content'' = Some ''c''" by simp
  have 4: "''c'' \<noteq> []" by simp
  have 5: "''64b7f0a1c2d3e4f5a6b7c8ff'' \<notin> set (map note_id [alice_note, bob_note])"
    by (simp add: alice_note_def bob_note_def)
  from createNote_then_get [where b = ?b and now = 3000, OF cast_alice_id 1 2 3 4 5 cast_absent]
  show ?thesis .
qed


section \<open>Login: the token and the user view\<close>

lemma login_success_cases:
  assumes "status (fst (login bcrypt_compare hmac env now b users)) = 200"
  shows "\<exists>name pw u. b ''username'' = Some name \<and> b ''password'' = Some pw
       \<and> User_findOne name users = Some u \<and> bcrypt_compare pw (password u)
       \<and> login bcrypt_compare hmac env now b users
          = (respond 200 (LoginJson (jwt_sign hmac now (user_id u) (username u) (jwt_secret env))
                            \<lparr>view_id = user_id u, view_username = username u\<rparr>),
             [Call_User_findOne, Call_bcrypt_compare, Call_jwt_sign])"
  using assms
  by (auto simp: login_def respond_def Let_def split: if_splits option.splits)

lemma bob_login:
  "login sample_compare sample_hmac None 7000 [''username'' \<mapsto> ''bob'', ''password'' \<mapsto> ''hunter22'']
      [\<lparr>user_id = alice_id, username = ''alice'', password = sample_hash ''wonderland'' sample_salt,
         user_createdAt = 400, user_updatedAt = 400\<rparr>, bob_user]
     = (\<lparr>status = 200, json = LoginJson
          \<lparr>jwt_id = bob_id, jwt_username = ''bob'', iat = 7, exp = 3607,
            signature = ''default_secret_key'' @ bob_id @ ''bob''\<rparr>
          \<lparr>view_id = bob_id, view_username = ''bob''\<rparr>\<rparr>,
        [Call_User_findOne, Call_bcrypt_compare, Call_jwt_sign])"
  by (simp add: login_def falsy_def User_findOne_def trim_def js_whitespace_def bob_user_def
      sample_compare_def sample_hash_def sample_salt_def jwt_sign_def jwt_secret_def sample_hmac_def
      respond_def Let_def)

text \<open>
  Claim C5. When login succeeds, the request names a stored user (the one the lookup by
  the trimmed username finds) whose stored hash verifies the request's password, and the
  response is the token and the view \<open>{id, username}\<close> of that user. The token is signed
  over that user's id and username, its expiry is 3600 seconds after its issue time, and
  it verifies exactly until then. Nothing else of the stored user enters the response:
  the body is built from the id and the username alone, so the password hash is not in
  it.
\<close>

theorem login_success_token_and_view:
  assumes "login bcrypt_compare hmac env now b users = (r, calls)" and "status r = 200"
  shows "\<exists>name pw u t. b ''username'' = Some name \<and> b ''password'' = Some pw
       \<and> User_findOne name users = Some u \<and> u \<in> set users \<and> username u = trim name
       \<and> bcrypt_compare pw (password u)
       \<and> json r = LoginJson t \<lparr>view_id = user_id u, view_username = username u\<rparr>
       \<and> t = jwt_sign hmac now (user_id u) (username u) (jwt_secret env)
       \<and> jwt_id t = user_id u \<and> jwt_username t = username u
       \<and> iat t = now div 1000 \<and> exp t = iat t + 3600
       \<and> (\<forall>now'. (jwt_verify hmac now' (jwt_secret env) t
                     = Some \<lparr>view_id = user_id u, view_username = username u\<rparr>)
                  = (now' div 1000 < now div 1000 + 3600))
       \<and> (\<forall>now'. (jwt_verify hmac now' (jwt_secret env) t = None)
                  = (now div 1000 + 3600 \<le> now' div 1000))"
proof -
  from assms have "status (fst (login bcrypt_compare hmac env now b users)) = 200" by simp
  from login_success_cases [OF this] obtain name pw u where
    n: "b ''username'' = Some name" and p: "b ''password'' = Some pw" and
    f: "User_findOne name users = Some u" and v: "bcrypt_compare pw (password u)" and
    l: "login bcrypt_compare hmac env now b users
          = (respond 200 (LoginJson (jwt_sign hmac now (user_id u) (username u) (jwt_secret env))
                            \<lparr>view_id = user_id u, view_username = username u\<rparr>),
             [Call_User_findOne, Call_bcrypt_compare, Call_jwt_sign])"
    by blast
  let ?t = "jwt_sign hmac now (user_id u) (username u) (jwt_secret env)"
  from f have mem: "u \<in> set users" and nm: "username u = trim name"
    by (auto simp: User_findOne_def find_Some_iff)
  from l assms(1) have j: "json r = LoginJson ?t \<lparr>view_id = user_id u, view_username = username u\<rparr>"
    by (auto simp: respond_def)
  have fields: "jwt_id ?t = user_id u \<and> jwt_username ?t = username u
      \<and> iat ?t = now div 1000 \<and> exp ?t = iat ?t + 3600"
    by (simp add: jwt_sign_def Let_def)
  have v1: "\<forall>now'. (jwt_verify hmac now' (jwt_secret env) ?t
                     = Some \<lparr>view_id = user_id u, view_username = username u\<rparr>)
                  = (now' div 1000 < now div 1000 + 3600)"
    by (simp add: jwt_verify_def jwt_sign_def Let_def)
  have v2: "\<forall>now'. (jwt_verify hmac now' (jwt_secret env) ?t = None)
                  = (now div 1000 + 3600 \<le> now' div 1000)"
    by (auto simp: jwt_verify_def jwt_sign_def Let_def)
  from n p f mem nm v j fields v1 v2 show ?thesis by blast
qed

theorem login_success_token_and_view_witness:
  "login sample_compare sample_hmac None 7000 [''username'' \<mapsto> ''bob'', ''password'' \<mapsto> ''hunter22'']
      [\<lparr>user_id = alice_id, username = ''alice'', password = sample_hash ''wonderland'' sample_salt,
         user_createdAt = 400, user_updatedAt = 400\<rparr>, bob_user]
     = (\<lparr>status = 200, json = LoginJson
          \<lparr>jwt_id = bob_id, jwt_username = ''bob'', iat = 7, exp = 3607,
            signature = ''default_secret_key'' @ bob_id @ ''bob''\<rparr>
          \<lparr>view_id = bob_id, view_username = ''bob''\<rparr>\<rparr>,
        [Call_User_findOne, Call_bcrypt_compare, Call_jwt_sign])
   \<and> (\<exists>u t. User_findOne ''bob''
          [\<lparr>user_id = alice_id, username = ''alice'', password = sample_hash ''wonderland'' sample_salt,
             user_createdAt = 400, user_updatedAt = 400\<rparr>, bob_user] = Some u
        \<and> sample_compare ''hunter22'' (password u)
        \<and> LoginJson \<lparr>jwt_id = bob_id, jwt_username = ''bob'', iat = 7, exp = 3607,
            signature = ''default_secret_key'' @ bob_id @ ''bob''\<rparr>
            \<lparr>view_id = bob_id, view_username = ''bob''\<rparr>
          = LoginJson t \<lparr>view_id = user_id u, view_username = username u\<rparr>
        \<and> t = jwt_sign sample_hmac 7000 (user_id u) (username u) (jwt_secret None)
        \<and> jwt_id t = user_id u \<and> jwt_username t = username u
        \<and> iat t = 7 \<and> exp t = 3607)"
proof -
  let ?users = "[\<lparr>user_id = alice_id, username = ''alice'', password = sample_hash ''wonderland'' sample_salt,
         user_createdAt = 400, user_updatedAt = 400\<rparr>, bob_user]"
  have ok: "status \<lparr>status = 200, json = LoginJson
          \<lparr>jwt_id = bob_id, jwt_username = ''bob'', iat = 7, exp = 3607,
            signature = ''default_secret_key'' @ bob_id @ ''bob''\<rparr>
          \<lparr>view_id = bob_id, view_username = ''bob''\<rparr>\<rparr> = 200"
    by simp
  from login_success_token_and_view [OF bob_login ok] obtain name pw u t where
    w: "[''username'' \<mapsto> ''bob'', ''password'' \<mapsto> ''hunter22''] ''username'' = Some name"
       "[''username'' \<mapsto> ''bob'', ''password'' \<mapsto> ''hunter22''] ''password'' = Some pw"
       "User_findOne name ?users = Some u" "sample_compare pw (password u)"
       "json \<lparr>status = 200, json = LoginJson
          \<lparr>jwt_id = bob_id, jwt_username = ''bob'', iat = 7, exp = 3607,
            signature = ''default_secret_key'' @ bob_id @ ''bob''\<rparr>
          \<lparr>view_id = bob_id, view_username = ''bob''\<rparr>\<rparr>
        = LoginJson t \<lparr>view_id = user_id u, view_username = username u\<rparr>"
       "t = jwt_sign sample_hmac 7000 (user_id u) (username u) (jwt_secret None)"
       "jwt_id t = user_id u" "jwt_username t = username u"
       "iat t = 7000 div 1000" "exp t = iat t + 3600"
    by blast
  from w(1) have name: "name = ''bob''" by simp
  from w(2) have pw: "pw = ''hunter22''" by simp
  from w(5) have j: "LoginJson \<lparr>jwt_id = bob_id, jwt_username = ''bob'', iat = 7, exp = 3607,
            signature = ''default_secret_key'' @ bob_id @ ''bob''\<rparr>
            \<lparr>view_id = bob_id, view_username = ''bob''\<rparr>
          = LoginJson t \<lparr>view_id = user_id u, view_username = username u\<rparr>"
    by (simp only: response.select_convs)
  from w(9) have i: "iat t = 7" by simp
  with w(10) have e: "exp t = 3607" by simp
  from bob_login w(3,4,6,7,8) name pw j i e show ?thesis by blast
qed


section \<open>Login: the two failures\<close>

text \<open>
  Claim C2, as stated, makes the failure for an unknown username and the failure for a
  wrong password indistinguishable, timing included. The responses are equal, but the
  work is not: for an unknown name the handler returns right after the lookup, for a
  wrong password it first runs \<^verbatim>\<open>bcrypt.compare\<close>, the deliberately slow step.
\<close>

theorem login_failures_differ_in_work_counterexample:
  "login sample_compare sample_hmac None 7000
       [''username'' \<mapsto> ''carol'', ''password'' \<mapsto> ''hunter22''] [bob_user]
     = (\<lparr>status = 400, json = Message ''Invalid credentials''\<rparr>, [Call_User_findOne])
   \<and> login sample_compare sample_hmac None 7000
       [''username'' \<mapsto> ''bob'', ''password'' \<mapsto> ''hunter23''] [bob_user]
     = (\<lparr>status = 400, json = Message ''Invalid credentials''\<rparr>, [Call_User_findOne, Call_bcrypt_compare])
   \<and> snd (login sample_compare sample_hmac None 7000
       [''username'' \<mapsto> ''carol'', ''password'' \<mapsto> ''hunter22''] [bob_user])
     \<noteq> snd (login sample_compare sample_hmac None 7000
       [''username'' \<mapsto> ''bob'', ''password'' \<mapsto> ''hunter23''] [bob_user])"
  by (simp add: login_def falsy_def User_findOne_def trim_def js_whitespace_def bob_user_def
      sample_compare_def sample_hash_def sample_salt_def respond_def)

text \<open>
  Claim C2, amended. A login that fails because no user has the name and a login that
  fails because the password does not verify return the same status, 400, and the same
  message; the handler does nothing to equalise their duration: the first makes the
  lookup only, the second the lookup and one hash comparison.
\<close>

theorem login_failures_same_response:
  assumes "b ''username'' = Some name" and "name \<noteq> []"
    and "b ''password'' = Some pw" and "pw \<noteq> []"
    and "User_findOne name users = None"
    and "b' ''username'' = Some name'" and "name' \<noteq> []"
    and "b' ''password'' = Some pw'" and "pw' \<noteq> []"
    and "User_findOne name' users = Some u" and "\<not> bcrypt_compare pw' (password u)"
  shows "fst (login bcrypt_compare hmac env now b users)
           = \<lparr>status = 400, json = Message ''Invalid credentials''\<rparr>
       \<and> fst (login bcrypt_compare hmac env now b' users)
           = \<lparr>status = 400, json = Message ''Invalid credentials''\<rparr>
       \<and> snd (login bcrypt_compare hmac env now b users) = [Call_User_findOne]
       \<and> snd (login bcrypt_compare hmac env now b' users) = [Call_User_findOne, Call_bcrypt_compare]"
proof -
  have absent: "login bcrypt_compare hmac env now b users
      = (\<lparr>status = 400, json = Message ''Invalid credentials''\<rparr>, [Call_User_findOne])"
    using assms(1-5) by (simp add: login_def falsy_def respond_def)
  have wrong: "login bcrypt_compare hmac env now b' users
      = (\<lparr>status = 400, json = Message ''Invalid credentials''\<rparr>, [Call_User_findOne, Call_bcrypt_compare])"
    using assms(6-11) by (simp add: login_def falsy_def respond_def)
  from absent wrong show ?thesis by simp
qed

theorem login_failures_same_response_witness:
  "fst (login sample_compare sample_hmac None 7000
          [''username'' \<mapsto> ''carol'', ''password'' \<mapsto> ''hunter22''] [bob_user])
     = \<lparr>status = 400, json = Message ''Invalid credentials''\<rparr>
   \<and> fst (login sample_compare sample_hmac None 7000
          [''username'' \<mapsto> ''bob'', ''password'' \<mapsto> ''hunter23''] [bob_user])
     = \<lparr>status = 400, json = Message ''Invalid credentials''\<rparr>"
proof -
  let ?b = "[''username'' \<mapsto> ''carol'', ''password'' \<mapsto> ''hunter22'']"
  let ?b' = "[''username'' \<mapsto> ''bob'', ''password'' \<mapsto> ''hunter23'']"
  have 1: "?b ''username'' = Some ''carol''" by simp
  have 2: "''carol'' \<noteq> []" by simp
  have 3: "?b ''password'' = Some ''hunter22''" by simp
  have 4: "''hunter22'' \<noteq> []" by simp
  have 5: "User_findOne ''carol'' [bob_user] = None"
    by (simp add: User_findOne_def trim_def js_whitespace_def bob_user_def)
  have 6: "?b' ''username'' = Some ''bob''" by simp
  have 7: "''bob'' \<noteq> []" by simp
  have 8: "?b' ''password'' = Some ''hunter23''" by simp
  have 9: "''hunter23'' \<noteq> []" by simp
  have 10: "User_findOne ''bob'' [bob_user] = Some bob_user"
    by (simp add: User_findOne_def trim_def js_whitespace_def bob_user_def)
  have 11: "\<not> sample_compare ''hunter23'' (password bob_user)"
    by (simp add: bob_user_def sample_compare_def sample_hash_def sample_salt_def)
  from login_failures_same_response [where b = ?b and b' = ?b' and bcrypt_compare = sample_compare
      and hmac = sample_hmac and env = None and now = 7000, OF 1 2 3 4 5 6 7 8 9 10 11]
  show ?thesis by simp
qed

section \<open>Register\<close>

lemma User_findOne_after_insert:
  assumes "User_findOne name users = None" and "username u = trim name"
  shows "User_findOne name (users @ [u]) = Some u"
  using assms by (simp add: User_findOne_def find_append_no_match)

lemma User_findOne_None_fresh:
  "User_findOne name users = None \<Longrightarrow> trim name \<notin> set (map username users)"
  by (auto simp: User_findOne_def find_None_iff)

text \<open>
  Claim C3, as stated, lets every request with both fields present and an unused
  username persist a user. The schema sets \<^verbatim>\<open>minlength: 3\<close> on the trimmed username:
  \<^verbatim>\<open>save\<close> rejects a shorter one, the handler answers 500 and stores nothing.
\<close>

theorem register_short_username_counterexample:
  "User_findOne ''ab'' [bob_user] = None
   \<and> register sample_hash sample_salt 7000 alice_id
        [''username'' \<mapsto> ''ab'', ''password'' \<mapsto> ''secret1''] [bob_user]
     = (\<lparr>status = 500, json = Message ''Server error''\<rparr>, [bob_user])"
  by (simp add: register_def falsy_def User_findOne_def trim_def js_whitespace_def bob_user_def
      User_save_def required_string_def respond_def Let_def)

text \<open>
  Claim C3, amended. If the username or the password is absent (or empty), register
  answers 400 and stores nothing. Otherwise, if a user with the trimmed username exists,
  it answers 400 \<open>Username already exists\<close> and stores nothing. Otherwise, if the
  trimmed username has at least 3 characters (the hash has at least 6, as every bcrypt
  hash has, and the generated id is new), it appends exactly one user holding the trimmed
  username and the hash of the password under the salt of this call, answers 201 with a
  message only, and a second registration from the same body is answered 400
  \<open>Username already exists\<close>. If the trimmed username is shorter than 3 characters,
  nothing is stored.
\<close>

theorem register_cases:
  "(falsy (b ''username'') \<or> falsy (b ''password'') \<longrightarrow>
      register bcrypt_hash salt now newid b users
        = (\<lparr>status = 400, json = Message ''Username and password are required''\<rparr>, users))
   \<and> (b ''username'' = Some name \<and> name \<noteq> [] \<and> b ''password'' = Some pw \<and> pw \<noteq> [] \<longrightarrow>
        (User_findOne name users = Some u \<longrightarrow>
           register bcrypt_hash salt now newid b users
             = (\<lparr>status = 400, json = Message ''Username already exists''\<rparr>, users))
      \<and> (User_findOne name users = None \<and> 3 \<le> length (trim name)
           \<and> 6 \<le> length (bcrypt_hash pw salt) \<and> newid \<notin> set (map user_id users) \<longrightarrow>
           register bcrypt_hash salt now newid b users
             = (\<lparr>status = 201, json = Message ''User registered successfully''\<rparr>,
                users @ [\<lparr>user_id = newid, username = trim name, password = bcrypt_hash pw salt,
                          user_createdAt = now, user_updatedAt = now\<rparr>])
           \<and> register bcrypt_hash salt' now' newid' b
               (users @ [\<lparr>user_id = newid, username = trim name, password = bcrypt_hash pw salt,
                          user_createdAt = now, user_updatedAt = now\<rparr>])
             = (\<lparr>status = 400, json = Message ''Username already exists''\<rparr>,
                users @ [\<lparr>user_id = newid, username = trim name, password = bcrypt_hash pw salt,
                          user_createdAt = now, user_updatedAt = now\<rparr>]))
      \<and> (User_findOne name users = None \<and> length (trim name) < 3 \<longrightarrow>
           snd (register bcrypt_hash salt now newid b users) = users))"
proof (intro conjI impI)
  assume "falsy (b ''username'') \<or> falsy (b ''password'')"
  then show "register bcrypt_hash salt now newid b users
        = (\<lparr>status = 400, json = Message ''Username and password are required''\<rparr>, users)"
    by (simp add: register_def respond_def)
next
  assume p: "b ''username'' = Some name \<and> name \<noteq> [] \<and> b ''password'' = Some pw \<and> pw \<noteq> []"
    and f: "User_findOne name users = Some u"
  then show "register bcrypt_hash salt now newid b users
             = (\<lparr>status = 400, json = Message ''Username already exists''\<rparr>, users)"
    by (simp add: register_def falsy_def respond_def)
next
  assume p: "b ''username'' = Some name \<and> name \<noteq> [] \<and> b ''password'' = Some pw \<and> pw \<noteq> []"
    and f: "User_findOne name users = None \<and> 3 \<le> length (trim name)
           \<and> 6 \<le> length (bcrypt_hash pw salt) \<and> newid \<notin> set (map user_id users)"
  let ?u = "\<lparr>user_id = newid, username = trim name, password = bcrypt_hash pw salt,
              user_createdAt = now, user_updatedAt = now\<rparr>"
  from f have none: "User_findOne name users = None" by simp
  then have fresh: "trim name \<notin> set (map username users)"
    by (rule User_findOne_None_fresh)
  from f have ne: "trim name \<noteq> []" "bcrypt_hash pw salt \<noteq> []" by auto
  have sv: "User_save now newid name (bcrypt_hash pw salt) users = Some (users @ [?u])"
    using f fresh ne by (simp add: User_save_def required_string_def Let_def)
  with p f show "register bcrypt_hash salt now newid b users
             = (\<lparr>status = 201, json = Message ''User registered successfully''\<rparr>, users @ [?u])"
    by (simp add: register_def falsy_def respond_def Let_def)
  have "User_findOne name (users @ [?u]) = Some ?u"
    using f by (simp add: User_findOne_after_insert)
  with p show "register bcrypt_hash salt' now' newid' b (users @ [?u])
             = (\<lparr>status = 400, json = Message ''Username already exists''\<rparr>, users @ [?u])"
    by (simp add: register_def falsy_def respond_def)
next
  assume p: "b ''username'' = Some name \<and> name \<noteq> [] \<and> b ''password'' = Some pw \<and> pw \<noteq> []"
    and f: "User_findOne name users = None \<and> length (trim name) < 3"
  then have "User_save now newid name (bcrypt_hash pw salt) users = None"
    by (simp add: User_save_def Let_def)
  with p f show "snd (register bcrypt_hash salt now newid b users) = users"
    by (simp add: register_def falsy_def respond_def Let_def)
qed

theorem register_cases_witness:
  "register sample_hash sample_salt 7000 alice_id [''password'' \<mapsto> ''secret1''] [bob_user]
     = (\<lparr>status = 400, json = Message ''Username and password are required''\<rparr>, [bob_user])
   \<and> register sample_hash sample_salt 7000 alice_id
        [''username'' \<mapsto> '' bob'', ''password'' \<mapsto> ''secret1''] [bob_user]
     = (\<lparr>status = 400, json = Message ''Username already exists''\<rparr>, [bob_user])
   \<and> register sample_hash sample_salt 7000 alice_id
        [''username'' \<mapsto> ''alice'', ''password'' \<mapsto> ''secret1''] [bob_user]
     = (\<lparr>status = 201, json = Message ''User registered successfully''\<rparr>,
        [bob_user, \<lparr>user_id = alice_id, username = ''alice'', password = sample_salt @ ''1terces'',
                    user_createdAt = 7000, user_updatedAt = 7000\<rparr>])
   \<and> register sample_hash ''$2a$10$zyxwvutsrqponmlkjihgfe'' 8000 ''64b7f0a1c2d3e4f5a6b7c8d3''
        [''username'' \<mapsto> ''alice'', ''password'' \<mapsto> ''secret1'']
        [bob_user, \<lparr>user_id = alice_id, username = ''alice'', password = sample_salt @ ''1terces'',
                    user_createdAt = 7000, user_updatedAt = 7000\<rparr>]
     = (\<lparr>status = 400, json = Message ''Username already exists''\<rparr>,
        [bob_user, \<lparr>user_id = alice_id, username = ''alice'', password = sample_salt @ ''1terces'',
                    user_createdAt = 7000, user_updatedAt = 7000\<rparr>])
   \<and> snd (register sample_hash sample_salt 7000 alice_id
        [''username'' \<mapsto> '' a '', ''password'' \<mapsto> ''secret1''] [bob_user]) = [bob_user]"
proof -
  let ?b1 = "[''password'' \<mapsto> ''secret1'']"
  let ?b2 = "[''username'' \<mapsto> '' bob'', ''password'' \<mapsto> ''secret1'']"
  let ?b3 = "[''username'' \<mapsto> ''alice'', ''password'' \<mapsto> ''secret1'']"
  let ?b4 = "[''username'' \<mapsto> '' a '', ''password'' \<mapsto> ''secret1'']"
  have t1: "trim '' bob'' = ''bob''" and t3: "trim ''alice'' = ''alice''" and t4: "trim '' a '' = ''a''"
    by (simp_all add: trim_def js_whitespace_def)
  have h1: "falsy (?b1 ''username'')"
    by (simp add: falsy_def)
  have h2: "User_findOne '' bob'' [bob_user] = Some bob_user"
    by (simp add: User_findOne_def t1 bob_user_def)
  have h3: "User_findOne ''alice'' [bob_user] = None" "6 \<le> length (sample_hash ''secret1'' sample_salt)"
    "alice_id \<notin> set (map user_id [bob_user])"
    by (simp_all add: User_findOne_def t3 bob_user_def sample_hash_def alice_id_def bob_id_def)
  have h4: "User_findOne '' a '' [bob_user] = None"
    by (simp add: User_findOne_def t4 bob_user_def)
  from register_cases [where b = ?b1 and bcrypt_hash = sample_hash and salt = sample_salt
      and now = 7000 and newid = alice_id and users = "[bob_user]"] h1
  have c1: "register sample_hash sample_salt 7000 alice_id ?b1 [bob_user]
     = (\<lparr>status = 400, json = Message ''Username and password are required''\<rparr>, [bob_user])"
    by simp
  from register_cases [where b = ?b2 and name = "'' bob''" and pw = "''secret1''" and u = bob_user
      and bcrypt_hash = sample_hash and salt = sample_salt
      and now = 7000 and newid = alice_id and users = "[bob_user]"] h2
  have c2: "register sample_hash sample_salt 7000 alice_id ?b2 [bob_user]
     = (\<lparr>status = 400, json = Message ''Username already exists''\<rparr>, [bob_user])"
    by simp
  from register_cases [where b = ?b3 and name = "''alice''" and pw = "''secret1''"
      and bcrypt_hash = sample_hash and salt = sample_salt
      and now = 7000 and newid = alice_id and users = "[bob_user]"
      and salt' = "''$2a$10$zyxwvutsrqponmlkjihgfe''" and now' = 8000
      and newid' = "''64b7f0a1c2d3e4f5a6b7c8d3''"] h3
  have c3: "register sample_hash sample_salt 7000 alice_id ?b3 [bob_user]
     = (\<lparr>status = 201, json = Message ''User registered successfully''\<rparr>,
        [bob_user, \<lparr>user_id = alice_id, username = ''alice'', password = sample_salt @ ''1terces'',
                    user_createdAt = 7000, user_updatedAt = 7000\<rparr>])
   \<and> register sample_hash ''$2a$10$zyxwvutsrqponmlkjihgfe'' 8000 ''64b7f0a1c2d3e4f5a6b7c8d3'' ?b3
        [bob_user, \<lparr>user_id = alice_id, username = ''alice'', password = sample_salt @ ''1terces'',
                    user_createdAt = 7000, user_updatedAt = 7000\<rparr>]
     = (\<lparr>status = 400, json = Message ''Username already exists''\<rparr>,
        [bob_user, \<lparr>user_id = alice_id, username = ''alice'', password = sample_salt @ ''1terces'',
                    user_createdAt = 7000, user_updatedAt = 7000\<rparr>])"
    by (simp add: t3 sample_hash_def)
  from register_cases [where b = ?b4 and name = "'' a ''" and pw = "''secret1''"
      and bcrypt_hash = sample_hash and salt = sample_salt
      and now = 7000 and newid = alice_id and users = "[bob_user]"] h4
  have c4: "snd (register sample_hash sample_salt 7000 alice_id ?b4 [bob_user]) = [bob_user]"
    by (simp add: t4)
  from c1 c2 c3 c4 show ?thesis by simp
qed

section \<open>Register, then login\<close>

lemma register_new_user:
  assumes "b ''username'' = Some name" and "3 \<le> length (trim name)"
    and "b ''password'' = Some pw" and "pw \<noteq> []"
    and "User_findOne name users = None" and "newid \<notin> set (map user_id users)"
    and "6 \<le> length (bcrypt_hash pw salt)"
  shows "register bcrypt_hash salt now newid b users
     = (\<lparr>status = 201, json = Message ''User registered successfully''\<rparr>,
        users @ [\<lparr>user_id = newid, username = trim name, password = bcrypt_hash pw salt,
                  user_createdAt = now, user_updatedAt = now\<rparr>])"
proof -
  have "trim [] = []" by (simp add: trim_def)
  with assms(2) have ne: "name \<noteq> []" by auto
  from assms(2) have tne: "trim name \<noteq> []" by auto
  from assms(7) have hne: "bcrypt_hash pw salt \<noteq> []" by auto
  from assms(5) have fresh: "trim name \<notin> set (map username users)"
    by (rule User_findOne_None_fresh)
  have "User_save now newid name (bcrypt_hash pw salt) users
      = Some (users @ [\<lparr>user_id = newid, username = trim name, password = bcrypt_hash pw salt,
                  user_createdAt = now, user_updatedAt = now\<rparr>])"
    using assms(2,6,7) tne hne fresh by (simp add: User_save_def required_string_def Let_def)
  with assms(1,3,4,5) ne show ?thesis
    by (simp add: register_def falsy_def respond_def Let_def)
qed

lemma login_verified_user:
  assumes "b ''username'' = Some name" and "name \<noteq> []"
    and "b ''password'' = Some pw" and "pw \<noteq> []"
    and "User_findOne name users = Some u" and "bcrypt_compare pw (password u)"
  shows "login bcrypt_compare hmac env now b users
     = (\<lparr>status = 200, json = LoginJson (jwt_sign hmac now (user_id u) (username u) (jwt_secret env))
                                      \<lparr>view_id = user_id u, view_username = username u\<rparr>\<rparr>,
        [Call_User_findOne, Call_bcrypt_compare, Call_jwt_sign])"
  using assms by (simp add: login_def falsy_def respond_def Let_def)

text \<open>
  Claim C4, as stated, counts the characters of the username as sent. The schema trims
  the username before it validates and stores it: three characters of which two are
  blanks are rejected by \<^verbatim>\<open>save\<close> (500, and the login that follows fails), and a
  padded name is stored, found and put into the token without its padding, so the token
  does not decode to the username that was sent.
\<close>

theorem register_login_trim_counterexample:
  "3 \<le> length '' a '' \<and> 6 \<le> length ''secret1'' \<and> User_findOne '' a '' [] = None
   \<and> register sample_hash sample_salt 7000 alice_id
        [''username'' \<mapsto> '' a '', ''password'' \<mapsto> ''secret1''] []
      = (\<lparr>status = 500, json = Message ''Server error''\<rparr>, [])
   \<and> fst (login sample_compare sample_hmac None 8000
        [''username'' \<mapsto> '' a '', ''password'' \<mapsto> ''secret1''] [])
      = \<lparr>status = 400, json = Message ''Invalid credentials''\<rparr>
   \<and> 3 \<le> length '' carol '' \<and> User_findOne '' carol '' [] = None
   \<and> fst (login sample_compare sample_hmac None 8000
        [''username'' \<mapsto> '' carol '', ''password'' \<mapsto> ''secret1'']
        (snd (register sample_hash sample_salt 7000 alice_id
           [''username'' \<mapsto> '' carol '', ''password'' \<mapsto> ''secret1''] [])))
      = \<lparr>status = 200, json = LoginJson
           \<lparr>jwt_id = alice_id, jwt_username = ''carol'', iat = 8, exp = 3608,
             signature = ''default_secret_key'' @ alice_id @ ''carol''\<rparr>
           \<lparr>view_id = alice_id, view_username = ''carol''\<rparr>\<rparr>
   \<and> ''carol'' \<noteq> '' carol ''"
  by (simp add: register_def login_def falsy_def User_findOne_def trim_def js_whitespace_def
      User_save_def required_string_def respond_def Let_def sample_hash_def sample_salt_def
      sample_compare_def sample_hmac_def jwt_sign_def jwt_secret_def)

text \<open>
  Claim C4, amended. For a username whose trimmed form has at least 3 characters and a
  password of at least 6, not registered before, register succeeds and login with the
  same credentials succeeds; the token verifies and decodes to the stored identity: the
  new user's id and the trimmed username (the username itself when it has no white space
  around it). The library is assumed to behave: the generated id is new, and
  \<^verbatim>\<open>bcrypt.compare\<close> accepts the hash that \<^verbatim>\<open>bcrypt.hash\<close> made for this password, a
  hash of at least 6 characters.
\<close>

theorem register_then_login:
  assumes "b ''username'' = Some name" and "3 \<le> length (trim name)"
    and "b ''password'' = Some pw" and "6 \<le> length pw"
    and "User_findOne name users = None" and "newid \<notin> set (map user_id users)"
    and "6 \<le> length (bcrypt_hash pw salt)" and "bcrypt_compare pw (bcrypt_hash pw salt)"
  shows "\<exists>users' t.
       register bcrypt_hash salt now newid b users
         = (\<lparr>status = 201, json = Message ''User registered successfully''\<rparr>, users')
     \<and> fst (login bcrypt_compare hmac env now' b users')
         = \<lparr>status = 200, json = LoginJson t \<lparr>view_id = newid, view_username = trim name\<rparr>\<rparr>
     \<and> jwt_id t = newid \<and> jwt_username t = trim name
     \<and> jwt_verify hmac now' (jwt_secret env) t = Some \<lparr>view_id = newid, view_username = trim name\<rparr>"
proof -
  let ?u = "\<lparr>user_id = newid, username = trim name, password = bcrypt_hash pw salt,
              user_createdAt = now, user_updatedAt = now\<rparr>"
  let ?t = "jwt_sign hmac now' newid (trim name) (jwt_secret env)"
  have "trim [] = []" by (simp add: trim_def)
  with assms(2) have ne: "name \<noteq> []" by auto
  from assms(4) have pne: "pw \<noteq> []" by auto
  have reg: "register bcrypt_hash salt now newid b users
      = (\<lparr>status = 201, json = Message ''User registered successfully''\<rparr>, users @ [?u])"
    using register_new_user [where b = b and bcrypt_hash = bcrypt_hash, OF assms(1,2,3) pne assms(5,6,7)] .
  have found: "User_findOne name (users @ [?u]) = Some ?u"
    using assms(5) by (simp add: User_findOne_after_insert)
  have cmp: "bcrypt_compare pw (password ?u)"
    using assms(8) by simp
  from login_verified_user [where b = b and bcrypt_compare = bcrypt_compare and hmac = hmac
      and env = env and now = now', OF assms(1) ne assms(3) pne found cmp]
  have lg: "fst (login bcrypt_compare hmac env now' b (users @ [?u]))
      = \<lparr>status = 200, json = LoginJson ?t \<lparr>view_id = newid, view_username = trim name\<rparr>\<rparr>"
    by simp
  have tok: "jwt_id ?t = newid \<and> jwt_username ?t = trim name
      \<and> jwt_verify hmac now' (jwt_secret env) ?t = Some \<lparr>view_id = newid, view_username = trim name\<rparr>"
    by (simp add: jwt_sign_def jwt_verify_def Let_def)
  from reg lg tok show ?thesis by blast
qed

theorem register_then_login_witness:
  "\<exists>users' t.
       register sample_hash sample_salt 7000 alice_id
          [''username'' \<mapsto> '' alice '', ''password'' \<mapsto> ''secret1''] [bob_user]
         = (\<lparr>status = 201, json = Message ''User registered successfully''\<rparr>, users')
     \<and> fst (login sample_compare sample_hmac None 8000
          [''username'' \<mapsto> '' alice '', ''password'' \<mapsto> ''secret1''] users')
         = \<lparr>status = 200, json = LoginJson t \<lparr>view_id = alice_id, view_username = ''alice''\<rparr>\<rparr>
     \<and> jwt_id t = alice_id \<and> jwt_username t = ''alice''
     \<and> jwt_verify sample_hmac 8000 (jwt_secret None) t
         = Some \<lparr>view_id = alice_id, view_username = ''alice''\<rparr>"
proof -
  let ?b = "[''username'' \<mapsto> '' alice '', ''password'' \<mapsto> ''secret1'']"
  have t: "trim '' alice '' = ''alice''"
    by (simp add: trim_def js_whitespace_def)
  have 1: "?b ''username'' = Some '' alice ''" by simp
  have 2: "3 \<le> length (trim '' alice '')" by (simp add: t)
  have 3: "?b ''password'' = Some ''secret1''" by simp
  have 4: "6 \<le> length ''secret1''" by simp
  have 5: "User_findOne '' alice '' [bob_user] = None"
    by (simp add: User_findOne_def t bob_user_def)
  have 6: "alice_id \<notin> set (map user_id [bob_user])"
    by (simp add: bob_user_def alice_id_def bob_id_def)
  have 7: "6 \<le> length (sample_hash ''secret1'' sample_salt)"
    by (simp add: sample_hash_def)
  have 8: "sample_compare ''secret1'' (sample_hash ''secret1'' sample_salt)"
    by (simp add: sample_compare_def sample_hash_def sample_salt_def)
  from register_then_login [where b = ?b and bcrypt_hash = sample_hash and bcrypt_compare = sample_compare
      and hmac = sample_hmac and env = None and now = 7000 and now' = 8000, OF 1 2 3 4 5 6 7 8]
  show ?thesis by (simp add: t)
qed

end
